theory Spec2Isabelle
  imports Complex_Main "HOL-Library.Word"
begin

section \<open>Strings and values of the JavaScript runtime\<close>

text \<open>
  A JavaScript string is a sequence of UTF-16 code units: \<open>s.length\<close> counts code units and
  \<open>s.substring(0, n)\<close> keeps the first \<open>n\<close> of them. The fixed texts of the components
  are Korean, so they are written out as their code units.
\<close>

type_synonym jsstring = "16 word list"

text \<open>ASCII text as a JavaScript string, for concrete inputs.\<close>

definition ascii :: "string \<Rightarrow> jsstring" where
  "ascii s = map (\<lambda>c. of_nat (of_char c)) s"

section \<open>Session list (SessionList component)\<close>

text \<open>\<^verbatim>\<open>interface SessionSummary\<close>; \<open>updated_at\<close> is the ISO text of a date.\<close>

record SessionSummary =
  session_id :: jsstring
  title :: jsstring
  lastMessage :: jsstring
  messageCount :: int
  updated_at :: jsstring

text \<open>
  \<^verbatim>\<open>Array.prototype.findIndex\<close>: the index of the first element satisfying the predicate,
  \<open>-1\<close> when there is none.
\<close>

primrec findIndex :: "('a \<Rightarrow> bool) \<Rightarrow> 'a list \<Rightarrow> int" where
  "findIndex P [] = - 1"
| "findIndex P (x # xs) =
     (if P x then 0
      else (let i = findIndex P xs in if i < 0 then - 1 else i + 1))"

text \<open>
  The title expression of \<^verbatim>\<open>updateSessionList\<close>, which the source writes twice:
  \<^verbatim>\<open>lastMessage.length > 30 ? lastMessage.substring(0, 30) + '...' : lastMessage\<close>.
  The suffix is three full stops (U+002E).
\<close>

definition titleOf :: "jsstring \<Rightarrow> jsstring" where
  "titleOf lastMsg =
     (if length lastMsg > 30 then take 30 lastMsg @ [0x2E, 0x2E, 0x2E] else lastMsg)"

text \<open>
  The state updater of \<^verbatim>\<open>updateSessionList(sessionId, lastMessage)\<close>. \<open>now\<close> is
  \<^verbatim>\<open>new Date().toISOString()\<close>. On an existing entry: copy the array, replace the entry at
  \<open>existingIndex\<close>, \<^verbatim>\<open>splice\<close> it out and \<^verbatim>\<open>unshift\<close> it. The returned list is also what
  is written, as JSON text, under the storage key \<^verbatim>\<open>chatSessions\<close>.
\<close>

definition updateSessionList ::
  "jsstring \<Rightarrow> jsstring \<Rightarrow> jsstring \<Rightarrow> SessionSummary list \<Rightarrow> SessionSummary list" where
  "updateSessionList sessionId lastMsg now prevSessions =
     (let existingIndex = findIndex (\<lambda>s. session_id s = sessionId) prevSessions in
      if existingIndex \<ge> 0 then
        (let i = nat existingIndex;
             existingSession = prevSessions ! i;
             updatedSessions = prevSessions[i := existingSession
               \<lparr> title := (if messageCount existingSession = 0 then titleOf lastMsg
                            else title existingSession),
                 lastMessage := lastMsg,
                 messageCount := messageCount existingSession + 1,
                 updated_at := now \<rparr>];
             updatedSession = updatedSessions ! i
         in updatedSession # (take i updatedSessions @ drop (i + 1) updatedSessions))
      else
        (let newSession = \<lparr> session_id = sessionId, title = titleOf lastMsg,
                             lastMessage = lastMsg, messageCount = 1, updated_at = now \<rparr>
         in newSession # prevSessions))"

text \<open>
  \<^verbatim>\<open>deleteSession(sessionId)\<close>. The inputs are the answer to the confirmation dialog and
  the outcome of the \<^verbatim>\<open>DELETE\<close> request: the request throws, or a response arrives with its
  \<^verbatim>\<open>ok\<close> flag. The result is the list of summaries, whether \<^verbatim>\<open>onNewSession\<close> was called,
  and the text of the alert shown, if any.
\<close>

datatype delete_outcome = DeleteThrown | DeleteResponse bool

definition alertDeleteFailed :: jsstring where
  "alertDeleteFailed =
     [0xC138, 0xC158, 0x0020, 0xC0AD, 0xC81C, 0xC5D0, 0x0020, 0xC2E4, 0xD328, 0xD588, 0xC2B5,
      0xB2C8, 0xB2E4, 0x002E, 0x0020, 0xB2E4, 0xC2DC, 0x0020, 0xC2DC, 0xB3C4, 0xD574, 0xC8FC,
      0xC138, 0xC694, 0x002E]"

definition alertDeleteError :: jsstring where
  "alertDeleteError =
     [0xC138, 0xC158, 0x0020, 0xC0AD, 0xC81C, 0x0020, 0xC911, 0x0020, 0xC624, 0xB958, 0xAC00,
      0x0020, 0xBC1C, 0xC0DD, 0xD588, 0xC2B5, 0xB2C8, 0xB2E4, 0x002E]"

record delete_result =
  sessionsAfter :: "SessionSummary list"
  calledNewSession :: bool
  alerted :: "jsstring option"

definition deleteSession ::
  "bool \<Rightarrow> delete_outcome \<Rightarrow> jsstring option \<Rightarrow> jsstring \<Rightarrow> SessionSummary list
     \<Rightarrow> delete_result" where
  "deleteSession confirmed outcome currentSessionId sessionId prevSessions =
     (if \<not> confirmed then
        \<lparr> sessionsAfter = prevSessions, calledNewSession = False, alerted = None \<rparr>
      else case outcome of
        DeleteResponse ok \<Rightarrow>
          if ok then
            \<lparr> sessionsAfter = filter (\<lambda>s. session_id s \<noteq> sessionId) prevSessions,
              calledNewSession = (currentSessionId = Some sessionId),
              alerted = None \<rparr>
          else
            \<lparr> sessionsAfter = prevSessions, calledNewSession = False,
              alerted = Some alertDeleteFailed \<rparr>
      | DeleteThrown \<Rightarrow>
          \<lparr> sessionsAfter = prevSessions, calledNewSession = False,
            alerted = Some alertDeleteError \<rparr>)"

text \<open>Sequences of cache operations, run from left to right.\<close>

datatype cache_op = Upsert jsstring jsstring jsstring | Remove jsstring

fun applyOp :: "SessionSummary list \<Rightarrow> cache_op \<Rightarrow> SessionSummary list" where
  "applyOp c (Upsert sid m now) = updateSessionList sid m now c"
| "applyOp c (Remove sid) = sessionsAfter (deleteSession True (DeleteResponse True) None sid c)"

definition runOps :: "cache_op list \<Rightarrow> SessionSummary list \<Rightarrow> SessionSummary list" where
  "runOps ops c = foldl applyOp c ops"

text \<open>
  The two conditions under which \<^verbatim>\<open>updateSessionList\<close> computes a title from
  \<open>lastMessage\<close>: the branch \<^verbatim>\<open>existingSession.messageCount === 0\<close> of an existing entry,
  and the insertion of a new entry.
\<close>

definition titleReassigned :: "jsstring \<Rightarrow> SessionSummary list \<Rightarrow> bool" where
  "titleReassigned sessionId prevSessions =
     (let existingIndex = findIndex (\<lambda>s. session_id s = sessionId) prevSessions in
      existingIndex \<ge> 0 \<and> messageCount (prevSessions ! nat existingIndex) = 0)"

definition assignsTitle :: "jsstring \<Rightarrow> SessionSummary list \<Rightarrow> bool" where
  "assignsTitle sessionId prevSessions =
     (findIndex (\<lambda>s. session_id s = sessionId) prevSessions < 0
      \<or> titleReassigned sessionId prevSessions)"

text \<open>Successive updates of one session, each with its message and its clock reading.\<close>

definition upsertAll ::
  "jsstring \<Rightarrow> (jsstring \<times> jsstring) list \<Rightarrow> SessionSummary list \<Rightarrow> SessionSummary list" where
  "upsertAll sid ms c = foldl (\<lambda>c (m, now). updateSessionList sid m now c) c ms"

text \<open>A summary with ASCII texts, for concrete inputs.\<close>

definition entry :: "string \<Rightarrow> string \<Rightarrow> int \<Rightarrow> SessionSummary" where
  "entry i t n = \<lparr> session_id = ascii i, title = ascii t, lastMessage = ascii t,
                   messageCount = n, updated_at = ascii ''2025-01-01T00:00:00.000Z'' \<rparr>"

subsection \<open>Loading the stored list\<close>

text \<open>
  What \<^verbatim>\<open>JSON.parse\<close> can return. The type annotation \<^verbatim>\<open>SessionSummary[]\<close> of the state is
  erased at run time, so the state holds whatever value was parsed.
\<close>

datatype json =
  JNull | JBool bool | JNum real | JStr jsstring | JArr "json list"
  | JObj "(jsstring \<times> json) list"

text \<open>
  \<^verbatim>\<open>loadSessions()\<close>, as the value of the \<open>sessions\<close> state after the call.
  \<open>storedSessions\<close> is the result of \<^verbatim>\<open>localStorage.getItem('chatSessions')\<close> (\<open>None\<close>
  for \<^verbatim>\<open>null\<close>), \<open>parsed\<close> the outcome of \<^verbatim>\<open>JSON.parse\<close> on that text (\<open>None\<close> when it
  throws a \<^verbatim>\<open>SyntaxError\<close>, which the \<^verbatim>\<open>catch\<close> block logs), \<open>prevSessions\<close> the state
  before the call. The empty string is falsy, so it is not parsed.
\<close>

definition loadSessions :: "jsstring option \<Rightarrow> json option \<Rightarrow> json \<Rightarrow> json" where
  "loadSessions storedSessions parsed prevSessions =
     (case storedSessions of
        None \<Rightarrow> prevSessions
      | Some text \<Rightarrow>
          if text = [] then prevSessions
          else (case parsed of
                  None \<Rightarrow> prevSessions
                | Some sessionList \<Rightarrow> sessionList))"

section \<open>Root component (App)\<close>

text \<open>
  The state that \<^verbatim>\<open>handleSessionUpdate\<close> touches: the selected session id, and the session
  list behind \<^verbatim>\<open>sessionListRef.current\<close> (\<open>None\<close> while the ref is \<^verbatim>\<open>null\<close>).
\<close>

record App =
  currentSessionId :: "jsstring option"
  sessionList :: "SessionSummary list option"

text \<open>Truthiness of a \<^verbatim>\<open>string | null\<close> value: \<^verbatim>\<open>null\<close> and the empty string are falsy.\<close>

definition truthy :: "jsstring option \<Rightarrow> bool" where
  "truthy v = (case v of None \<Rightarrow> False | Some s \<Rightarrow> s \<noteq> [])"

text \<open>
  \<^verbatim>\<open>handleSessionUpdate(sessionId, lastMessage)\<close>; \<open>now\<close> is the clock reading of the
  \<^verbatim>\<open>updateSessionList\<close> call.
\<close>

definition handleSessionUpdate :: "jsstring \<Rightarrow> jsstring \<Rightarrow> jsstring \<Rightarrow> App \<Rightarrow> App" where
  "handleSessionUpdate now sessionId lastMsg app =
     (let app1 = (case sessionList app of
                    Some sessions \<Rightarrow>
                      app\<lparr> sessionList := Some (updateSessionList sessionId lastMsg now sessions) \<rparr>
                  | None \<Rightarrow> app)
      in if \<not> truthy (currentSessionId app) then app1\<lparr> currentSessionId := Some sessionId \<rparr>
         else app1)"

section \<open>Chat component (ChatBot)\<close>

text \<open>
  \<^verbatim>\<open>interface Message\<close>. The fields \<^verbatim>\<open>id\<close> and \<^verbatim>\<open>text\<close> are primed here. An id is
  either a literal or the decimal text of a number (\<^verbatim>\<open>Date.now().toString()\<close>); a
  \<^verbatim>\<open>Date\<close> is its time value in milliseconds.
\<close>

record Source =
  page :: jsstring
  source :: jsstring

datatype message_id = IdLiteral jsstring | IdOfNumber int

record Message =
  id' :: message_id
  text' :: jsstring
  isUser :: bool
  timestamp :: int
  sources :: "Source list option"

text \<open>
  \<^verbatim>\<open>interface ChatResponse\<close> and its \<^verbatim>\<open>data\<close> object, whose fields \<^verbatim>\<open>sources\<close> and
  \<^verbatim>\<open>session_id\<close> are prefixed here; \<^verbatim>\<open>interface ChatSession\<close> likewise.
\<close>

record ChatData =
  answer :: jsstring
  data_sources :: "Source list"
  query :: jsstring
  data_session_id :: "jsstring option"

record ChatResponse =
  success :: bool
  message :: jsstring
  data :: "ChatData option"
  error :: "jsstring option"

record RemoteMessage =
  role :: jsstring
  content :: jsstring
  remote_timestamp :: jsstring

record ChatSession =
  chat_session_id :: jsstring
  chat_messages :: "RemoteMessage list"
  created_at :: jsstring
  chat_updated_at :: jsstring

text \<open>
  The outcome of \<^verbatim>\<open>await fetch(...)\<close> followed by \<^verbatim>\<open>response.json()\<close>: the request is
  rejected, or a response arrives with its \<^verbatim>\<open>ok\<close> flag and a body (\<open>None\<close> when reading
  the body as JSON is rejected).
\<close>

datatype 'b fetched = Rejected | Responded bool "'b option"

text \<open>What the \<^verbatim>\<open>try\<close> blocks can throw.\<close>

datatype js_error = FetchRejected | BodyUnreadable | ServerResponseError

record ChatBot =
  messages :: "Message list"
  inputValue :: jsstring
  isLoading :: bool
  sessionId :: "jsstring option"

text \<open>The fixed texts of the component.\<close>

definition greetingSession :: jsstring where
  "greetingSession =
     [0xC548, 0xB155, 0xD558, 0xC138, 0xC694, 0x0021, 0x0020, 0x0050, 0x0044, 0x0046, 0xC640,
      0x0020, 0xAD00, 0xB828, 0xD558, 0xC5EC, 0x0020, 0xAD81, 0xAE08, 0xD55C, 0x0020, 0xC810,
      0xC774, 0x0020, 0xC788, 0xC73C, 0xC2DC, 0xBA74, 0x0020, 0xC5B8, 0xC81C, 0xB4E0, 0x0020,
      0xBB3C, 0xC5B4, 0xBCF4, 0xC138, 0xC694, 0x002E, 0x0020, 0xB300, 0xD654, 0xB97C, 0x0020,
      0xC774, 0xC5B4, 0xAC00, 0xBA70, 0x0020, 0xB354, 0x0020, 0xC790, 0xC138, 0xD55C, 0x0020,
      0xC9C8, 0xBB38, 0xB3C4, 0x0020, 0xD558, 0xC2E4, 0x0020, 0xC218, 0x0020, 0xC788, 0xC2B5,
      0xB2C8, 0xB2E4, 0x002E]"

definition greetingDefault :: jsstring where
  "greetingDefault =
     [0xC548, 0xB155, 0xD558, 0xC138, 0xC694, 0x0021, 0x0020, 0x0050, 0x0044, 0x0046, 0xC640,
      0x0020, 0xAD00, 0xB828, 0xD558, 0xC5EC, 0x0020, 0xAD81, 0xAE08, 0xD55C, 0x0020, 0xC810,
      0xC774, 0x0020, 0xC788, 0xC73C, 0xC2DC, 0xBA74, 0x0020, 0xC5B8, 0xC81C, 0xB4E0, 0x0020,
      0xBB3C, 0xC5B4, 0xBCF4, 0xC138, 0xC694, 0x002E]"

definition apologyText :: jsstring where
  "apologyText =
     [0xC8C4, 0xC1A1, 0xD569, 0xB2C8, 0xB2E4, 0x002E, 0x0020, 0xC11C, 0xBC84, 0xC640, 0xC758,
      0x0020, 0xC5F0, 0xACB0, 0xC5D0, 0x0020, 0xBB38, 0xC81C, 0xAC00, 0x0020, 0xBC1C, 0xC0DD,
      0xD588, 0xC2B5, 0xB2C8, 0xB2E4, 0x002E]"

definition noAnswerText :: jsstring where
  "noAnswerText =
     [0xC751, 0xB2F5, 0xC744, 0x0020, 0xBC1B, 0xC9C0, 0x0020, 0xBABB, 0xD588, 0xC2B5, 0xB2C8,
      0xB2E4, 0x002E]"

definition greeting :: "jsstring \<Rightarrow> int \<Rightarrow> Message" where
  "greeting t now =
     \<lparr> id' = IdLiteral (ascii ''1''), text' = t, isUser = False, timestamp = now,
       sources = None \<rparr>"

text \<open>
  \<^verbatim>\<open>createNewSession()\<close>: first the \<^verbatim>\<open>try\<close> block, whose throws are values, then the
  whole function with its \<^verbatim>\<open>catch\<close> block. \<open>now\<close> is \<^verbatim>\<open>new Date()\<close>. A response that
  is not \<^verbatim>\<open>ok\<close> falls through the \<^verbatim>\<open>if\<close> with no \<^verbatim>\<open>else\<close>.
\<close>

definition createNewSession_try :: "int \<Rightarrow> ChatSession fetched \<Rightarrow> ChatBot \<Rightarrow> js_error + ChatBot" where
  "createNewSession_try now outcome st =
     (case outcome of
        Rejected \<Rightarrow> Inl FetchRejected
      | Responded ok body \<Rightarrow>
          if ok then
            (case body of
               None \<Rightarrow> Inl BodyUnreadable
             | Some session \<Rightarrow>
                 Inr (st\<lparr> sessionId := Some (chat_session_id session),
                          messages := [greeting greetingSession now] \<rparr>))
          else Inr st)"

definition createNewSession :: "int \<Rightarrow> ChatSession fetched \<Rightarrow> ChatBot \<Rightarrow> ChatBot" where
  "createNewSession now outcome st =
     (case createNewSession_try now outcome st of
        Inr st' \<Rightarrow> st'
      | Inl err \<Rightarrow> st\<lparr> messages := [greeting greetingDefault now] \<rparr>)"

text \<open>
  \<^verbatim>\<open>String.prototype.trim\<close> removes the white space and line terminator code units of
  ECMAScript from both ends.
\<close>

definition isWhiteSpace :: "16 word \<Rightarrow> bool" where
  "isWhiteSpace u \<longleftrightarrow>
     u \<in> {0x0009, 0x000A, 0x000B, 0x000C, 0x000D, 0x0020, 0x00A0, 0x1680, 0x2028, 0x2029,
          0x202F, 0x205F, 0x3000, 0xFEFF}
     \<or> (0x2000 \<le> u \<and> u \<le> 0x200A)"

definition trim :: "jsstring \<Rightarrow> jsstring" where
  "trim s = rev (dropWhile isWhiteSpace (rev (dropWhile isWhiteSpace s)))"

text \<open>The four clock readings of \<^verbatim>\<open>handleSendMessage\<close>, in the order of the source.\<close>

record SendClock =
  userIdNow :: int
  userStamp :: int
  replyIdNow :: int
  replyStamp :: int

text \<open>The text of the message of the \<^verbatim>\<open>else\<close> branch:
  \<^verbatim>\<open>data.message || data.error || '...'\<close>.\<close>

definition errorText :: "ChatResponse \<Rightarrow> jsstring" where
  "errorText r =
     (if message r \<noteq> [] then message r
      else if truthy (error r) then the (error r)
      else noAnswerText)"

definition replyMessage :: "SendClock \<Rightarrow> jsstring \<Rightarrow> Source list option \<Rightarrow> Message" where
  "replyMessage clock t srcs =
     \<lparr> id' = IdOfNumber (replyIdNow clock + 1), text' = t, isUser = False,
       timestamp = replyStamp clock, sources = srcs \<rparr>"

text \<open>
  \<^verbatim>\<open>handleSendMessage()\<close>. \<open>onSessionUpdate\<close> is the optional callback prop, acting on the
  state \<open>w\<close> of its owner. \<open>st\<close> is the state that the closure of the call sees: the
  \<open>sessionId\<close> read after \<^verbatim>\<open>setSessionId\<close> is still the one of \<open>st\<close>, while the
  functional updates of \<open>messages\<close> append to the latest list. The \<^verbatim>\<open>try\<close> block comes
  first: everything it throws is thrown before it changes any state.
\<close>

definition handleSendMessage_try ::
  "SendClock \<Rightarrow> ChatResponse fetched \<Rightarrow> (jsstring \<Rightarrow> jsstring \<Rightarrow> 'w \<Rightarrow> 'w) option
     \<Rightarrow> jsstring option \<Rightarrow> jsstring \<Rightarrow> ChatBot \<times> 'w \<Rightarrow> js_error + ChatBot \<times> 'w" where
  "handleSendMessage_try clock outcome onSessionUpdate closureSessionId messageToSend sw =
     (let st1 = fst sw; w = snd sw in
      case outcome of
        Rejected \<Rightarrow> Inl FetchRejected
      | Responded ok body \<Rightarrow>
          if \<not> ok then Inl ServerResponseError
          else (case body of
             None \<Rightarrow> Inl BodyUnreadable
           | Some r \<Rightarrow>
              (case (if success r then data r else None) of
                 Some d \<Rightarrow>
                   (let st2 = (if truthy (data_session_id d) \<and> \<not> truthy closureSessionId
                               then st1\<lparr> sessionId := data_session_id d \<rparr> else st1);
                        botMessage = replyMessage clock (answer d) (Some (data_sources d));
                        st3 = st2\<lparr> messages := messages st2 @ [botMessage] \<rparr>;
                        w' = (case onSessionUpdate of
                                Some notify \<Rightarrow>
                                  if truthy closureSessionId
                                  then notify (the closureSessionId) messageToSend w else w
                              | None \<Rightarrow> w)
                    in Inr (st3, w'))
               | None \<Rightarrow>
                   Inr (st1\<lparr> messages := messages st1
                              @ [replyMessage clock (errorText r) None] \<rparr>, w))))"

definition handleSendMessage ::
  "SendClock \<Rightarrow> ChatResponse fetched \<Rightarrow> (jsstring \<Rightarrow> jsstring \<Rightarrow> 'w \<Rightarrow> 'w) option
     \<Rightarrow> ChatBot \<times> 'w \<Rightarrow> ChatBot \<times> 'w" where
  "handleSendMessage clock outcome onSessionUpdate sw =
     (let st = fst sw; w = snd sw in
      if trim (inputValue st) = [] then (st, w)
      else
        (let userMessage = \<lparr> id' = IdOfNumber (userIdNow clock), text' = inputValue st,
                              isUser = True, timestamp = userStamp clock, sources = None \<rparr>;
             messageToSend = inputValue st;
             st1 = st\<lparr> messages := messages st @ [userMessage], inputValue := [],
                       isLoading := True \<rparr>
         in case handleSendMessage_try clock outcome onSessionUpdate (sessionId st)
                   messageToSend (st1, w) of
              Inr (st', w') \<Rightarrow> (st'\<lparr> isLoading := False \<rparr>, w')
            | Inl err \<Rightarrow>
                (st1\<lparr> messages := messages st1 @ [replyMessage clock apologyText None],
                      isLoading := False \<rparr>, w)))"

text \<open>The failures of a send: the request or the reading of the body throws, the status
  is not a success, or the body reports \<open>success = false\<close>.\<close>

fun sendFails :: "ChatResponse fetched \<Rightarrow> bool" where
  "sendFails Rejected = True"
| "sendFails (Responded ok None) = True"
| "sendFails (Responded ok (Some r)) = (\<not> ok \<or> \<not> success r)"

text \<open>The reply that a failed send shows.\<close>

fun failureText :: "ChatResponse fetched \<Rightarrow> jsstring" where
  "failureText (Responded True (Some r)) = errorText r"
| "failureText outcome = apologyText"

text \<open>
  Concrete inputs: clock readings; a chat that holds the session \<open>s1\<close> and a chat with no
  session (as a failed creation leaves it), both with \<open>hello\<close> typed in; a response with
  an answer that carries the session id \<open>s1\<close>; a response that reports a failure.
\<close>

definition exampleClock :: SendClock where
  "exampleClock = \<lparr> userIdNow = 1700000000000, userStamp = 1700000000001,
                    replyIdNow = 1700000000850, replyStamp = 1700000000851 \<rparr>"

definition chatWithSession :: ChatBot where
  "chatWithSession = \<lparr> messages = [greeting greetingSession 1699999990000],
                       inputValue = ascii ''hello'', isLoading = False,
                       sessionId = Some (ascii ''s1'') \<rparr>"

definition chatWithoutSession :: ChatBot where
  "chatWithoutSession = \<lparr> messages = [greeting greetingDefault 1699999990000],
                          inputValue = ascii ''hello'', isLoading = False,
                          sessionId = None \<rparr>"

definition answerResponse :: ChatResponse where
  "answerResponse =
     \<lparr> success = True, message = ascii ''ok'',
       data = Some \<lparr> answer = ascii ''hi there'', data_sources = [],
                     query = ascii ''hello'', data_session_id = Some (ascii ''s1'') \<rparr>,
       error = None \<rparr>"

definition refusedResponse :: ChatResponse where
  "refusedResponse =
     \<lparr> success = False, message = ascii ''quota exceeded'', data = None, error = None \<rparr>"

section \<open>Facts about the session list\<close>

lemma findIndex_neg_iff: "findIndex P xs < 0 \<longleftrightarrow> (\<forall>x \<in> set xs. \<not> P x)"
  by (induction xs) (auto simp: Let_def)

lemma findIndex_found:
  "0 \<le> findIndex P xs \<Longrightarrow>
     nat (findIndex P xs) < length xs \<and> P (xs ! nat (findIndex P xs)) \<and>
     (\<forall>x \<in> set (take (nat (findIndex P xs)) xs). \<not> P x)"
proof (induction xs)
  case Nil
  then show ?case by simp
next
  case (Cons x xs)
  show ?case
  proof (cases "P x")
    case True
    then show ?thesis by simp
  next
    case False
    with Cons.prems have nn: "0 \<le> findIndex P xs"
      by (simp add: Let_def split: if_splits)
    from Cons.IH [OF nn] False nn show ?thesis
      by (simp add: Let_def nat_add_distrib)
  qed
qed

lemma findIndex_append_hit:
  "\<forall>x \<in> set xs. \<not> P x \<Longrightarrow> P e \<Longrightarrow> findIndex P (xs @ e # ys) = int (length xs)"
  by (induction xs) (auto simp: Let_def)

lemma split_at_findIndex:
  assumes "0 \<le> findIndex P c"
  shows "\<exists>xs e ys. c = xs @ e # ys \<and> (\<forall>x \<in> set xs. \<not> P x) \<and> P e"
proof -
  let ?i = "nat (findIndex P c)"
  from findIndex_found [OF assms]
  have lt: "?i < length c" and hit: "P (c ! ?i)" and pre: "\<forall>x \<in> set (take ?i c). \<not> P x"
    by simp_all
  from lt have "c = take ?i c @ c ! ?i # drop (Suc ?i) c"
    by (simp add: id_take_nth_drop)
  with hit pre show ?thesis by blast
qed

text \<open>The two shapes of the result: a new entry in front, or the first entry of that id
  updated and moved to the front.\<close>

lemma updateSessionList_absent:
  assumes "\<forall>s \<in> set c. session_id s \<noteq> sid"
  shows "updateSessionList sid m now c =
           \<lparr> session_id = sid, title = titleOf m, lastMessage = m, messageCount = 1,
             updated_at = now \<rparr> # c"
proof -
  from assms have "findIndex (\<lambda>s. session_id s = sid) c < 0"
    by (simp add: findIndex_neg_iff)
  then show ?thesis by (simp add: updateSessionList_def)
qed

lemma updateSessionList_present:
  assumes c: "c = xs @ e # ys" and pre: "\<forall>s \<in> set xs. session_id s \<noteq> sid"
    and hit: "session_id e = sid"
  shows "updateSessionList sid m now c =
           e\<lparr> title := (if messageCount e = 0 then titleOf m else title e),
              lastMessage := m, messageCount := messageCount e + 1, updated_at := now \<rparr>
           # (xs @ ys)"
proof -
  from pre hit have "findIndex (\<lambda>s. session_id s = sid) (xs @ e # ys) = int (length xs)"
    by (intro findIndex_append_hit) simp_all
  then show ?thesis
    unfolding updateSessionList_def c by (simp add: Let_def list_update_append nth_append)
qed

lemma updateSessionList_cases:
  obtains (absent) "\<forall>s \<in> set c. session_id s \<noteq> sid"
  | (present) xs e ys where "c = xs @ e # ys" "\<forall>s \<in> set xs. session_id s \<noteq> sid"
      "session_id e = sid"
proof (cases "0 \<le> findIndex (\<lambda>s. session_id s = sid) c")
  case True
  from split_at_findIndex [OF True] show ?thesis using present by blast
next
  case False
  then have "findIndex (\<lambda>s. session_id s = sid) c < 0" by simp
  then show ?thesis using absent by (simp add: findIndex_neg_iff)
qed

lemma ids_after_upsert:
  "map session_id (updateSessionList sid m now c) = sid # remove1 sid (map session_id c)"
proof (cases c sid rule: updateSessionList_cases)
  case absent
  then have "sid \<notin> set (map session_id c)" by auto
  with absent show ?thesis by (simp add: updateSessionList_absent remove1_idem)
next
  case (present xs e ys)
  then have "sid \<notin> set (map session_id xs)" by auto
  with updateSessionList_present [OF present, of m now] present show ?thesis
    by (simp add: remove1_append)
qed

subsection \<open>One session updated repeatedly\<close>

text \<open>The invariant of repeated updates of \<open>sid\<close>: its only entry is in front, counts at
  least one message and has the title \<open>t\<close>.\<close>

lemma owned_step:
  assumes "c = e # ys" "session_id e = sid" "title e = t" "1 \<le> messageCount e"
    "\<forall>s \<in> set ys. session_id s \<noteq> sid"
  shows "\<exists>e' ys'. updateSessionList sid m now c = e' # ys' \<and> session_id e' = sid
           \<and> title e' = t \<and> 1 \<le> messageCount e' \<and> (\<forall>s \<in> set ys'. session_id s \<noteq> sid)"
proof -
  from assms(1) have c: "c = [] @ e # ys" by simp
  from updateSessionList_present [OF c _ assms(2), of m now] assms show ?thesis by simp
qed

lemma owned_upsertAll:
  assumes "c = e # ys" "session_id e = sid" "title e = t" "1 \<le> messageCount e"
    "\<forall>s \<in> set ys. session_id s \<noteq> sid"
  shows "\<exists>e' ys'. upsertAll sid ms c = e' # ys' \<and> session_id e' = sid
           \<and> title e' = t \<and> 1 \<le> messageCount e' \<and> (\<forall>s \<in> set ys'. session_id s \<noteq> sid)"
  using assms
proof (induction ms arbitrary: c e ys)
  case Nil
  then show ?case by (simp add: upsertAll_def)
next
  case (Cons p ms)
  obtain m now where p: "p = (m, now)" by (cases p)
  from owned_step [OF Cons.prems, of m now]
  obtain e' ys' where step: "updateSessionList sid m now c = e' # ys'" "session_id e' = sid"
      "title e' = t" "1 \<le> messageCount e'" "\<forall>s \<in> set ys'. session_id s \<noteq> sid"
    by blast
  from Cons.IH [OF step] have
    "\<exists>e'' ys''. upsertAll sid ms (updateSessionList sid m now c) = e'' # ys''
       \<and> session_id e'' = sid \<and> title e'' = t \<and> 1 \<le> messageCount e''
       \<and> (\<forall>s \<in> set ys''. session_id s \<noteq> sid)"
    by simp
  then show ?case by (simp add: upsertAll_def p)
qed

text \<open>
  C3. Starting from a list with no entry for \<open>sid\<close>, after the updates of \<open>sid\<close> with the
  messages \<open>m1, ..., mn\<close> the list has exactly one entry for \<open>sid\<close>, and its title is the
  title computed from \<open>m1\<close>, whatever the later messages are.
\<close>

theorem title_immutable:
  assumes "\<forall>s \<in> set c. session_id s \<noteq> sid"
  shows "map title (filter (\<lambda>s. session_id s = sid) (upsertAll sid ((m1, t1) # rest) c))
           = [titleOf m1]"
proof -
  let ?e = "\<lparr> session_id = sid, title = titleOf m1, lastMessage = m1, messageCount = 1,
              updated_at = t1 \<rparr>"
  have first: "updateSessionList sid m1 t1 c = ?e # c"
    by (rule updateSessionList_absent [OF assms])
  from owned_upsertAll [OF first _ _ _ assms, of "titleOf m1" rest]
  obtain e' ys' where "upsertAll sid rest (updateSessionList sid m1 t1 c) = e' # ys'"
      "session_id e' = sid" "title e' = titleOf m1" "\<forall>s \<in> set ys'. session_id s \<noteq> sid"
    by auto
  moreover have "upsertAll sid ((m1, t1) # rest) c
      = upsertAll sid rest (updateSessionList sid m1 t1 c)"
    by (simp add: upsertAll_def)
  ultimately show ?thesis by (simp add: filter_empty_conv)
qed

theorem title_immutable_witness:
  "ascii ''s1'' \<notin> session_id ` set [entry ''s0'' ''older'' 4]
   \<and> map title (filter (\<lambda>s. session_id s = ascii ''s1'')
       (upsertAll (ascii ''s1'')
          [(ascii ''hello'', ascii ''t1''), (ascii ''how are you'', ascii ''t2''),
           (ascii ''bye'', ascii ''t3'')] [entry ''s0'' ''older'' 4]))
     = [ascii ''hello'']"
proof -
  have absent: "\<forall>s \<in> set [entry ''s0'' ''older'' 4]. session_id s \<noteq> ascii ''s1''"
    by (simp add: entry_def ascii_def)
  have t: "titleOf (ascii ''hello'') = ascii ''hello''"
    by (simp add: titleOf_def ascii_def)
  from title_immutable [OF absent, of "ascii ''hello''" "ascii ''t1''"
      "[(ascii ''how are you'', ascii ''t2''), (ascii ''bye'', ascii ''t3'')]"] absent t
  show ?thesis by simp
qed

subsection \<open>Title rule\<close>

text \<open>
  C4 (amended). Whenever an update computes a title from \<open>lastMessage\<close> (a new entry, or an
  existing one whose \<open>messageCount\<close> is 0), the title is \<open>lastMessage\<close> itself when it has
  at most 30 code units, and otherwise its first 30 code units followed by three full
  stops (U+002E), not by the single character U+2026.
\<close>

theorem title_rule:
  assumes "assignsTitle sid c"
  shows "title (hd (updateSessionList sid m now c))
           = (if length m > 30 then take 30 m @ [0x2E, 0x2E, 0x2E] else m)"
proof (cases c sid rule: updateSessionList_cases)
  case absent
  then show ?thesis by (simp add: updateSessionList_absent titleOf_def)
next
  case (present xs e ys)
  then have idx: "findIndex (\<lambda>s. session_id s = sid) c = int (length xs)"
    by (simp add: findIndex_append_hit)
  with assms present have "messageCount e = 0"
    by (simp add: assignsTitle_def titleReassigned_def)
  with updateSessionList_present [OF present, of m now] show ?thesis
    by (simp add: titleOf_def)
qed

theorem title_rule_witness:
  "assignsTitle (ascii ''s1'') []
   \<and> title (hd (updateSessionList (ascii ''s1'') (replicate 31 0x61) (ascii ''t1'') []))
       = replicate 30 0x61 @ [0x2E, 0x2E, 0x2E]"
proof -
  have a: "assignsTitle (ascii ''s1'') []"
    by (simp add: assignsTitle_def)
  from title_rule [OF a, of "replicate 31 0x61" "ascii ''t1''"] a
  show ?thesis by simp
qed

text \<open>A message of 31 letters \<open>a\<close>: the title does not end in U+2026.\<close>

theorem title_single_ellipsis_counterexample:
  "length (replicate 31 (0x61 :: 16 word)) > 30
   \<and> title (hd (updateSessionList (ascii ''s1'') (replicate 31 0x61) (ascii ''t1'') []))
       \<noteq> take 30 (replicate 31 0x61) @ [0x2026]"
  by (simp add: updateSessionList_def titleOf_def)

subsection \<open>Order\<close>

text \<open>
  C5. An update puts the id in front and removes its first earlier occurrence from the
  rest, whether the id was there or not; so updating A, B, A from the empty list gives
  the order A, B.
\<close>

theorem move_to_front:
  "map session_id (updateSessionList sid m now c) = sid # remove1 sid (map session_id c)
   \<and> (a \<noteq> b \<longrightarrow>
        map session_id (updateSessionList a m3 t3 (updateSessionList b m2 t2
          (updateSessionList a m1 t1 []))) = [a, b])"
  by (simp add: ids_after_upsert)

theorem move_to_front_witness:
  "ascii ''A'' \<noteq> ascii ''B''
   \<and> map session_id (updateSessionList (ascii ''A'') (ascii ''m3'') (ascii ''t3'')
        (updateSessionList (ascii ''B'') (ascii ''m2'') (ascii ''t2'')
          (updateSessionList (ascii ''A'') (ascii ''m1'') (ascii ''t1'') [])))
       = [ascii ''A'', ascii ''B'']"
proof -
  have ne: "ascii ''A'' \<noteq> ascii ''B''"
    by (simp add: ascii_def)
  from move_to_front [of "ascii ''A''" "ascii ''m3''" "ascii ''t3''" "[]" "ascii ''A''"
      "ascii ''B''" "ascii ''m3''" "ascii ''t3''" "ascii ''m2''" "ascii ''t2''"
      "ascii ''m1''" "ascii ''t1''"] ne
  show ?thesis by blast
qed

subsection \<open>Removal\<close>

text \<open>
  C8. Deleting an id that is not in the list leaves the list as it is, whatever the
  confirmation and the response are; a confirmed and accepted deletion of an id that
  occurs once removes that entry and nothing else.
\<close>

theorem remove_absent_noop:
  "((\<forall>s \<in> set c. session_id s \<noteq> sid) \<longrightarrow>
      sessionsAfter (deleteSession confirmed outcome cur sid c) = c)
   \<and> ((\<forall>s \<in> set (xs @ ys). session_id s \<noteq> sid') \<and> session_id e = sid' \<longrightarrow>
      sessionsAfter (deleteSession True (DeleteResponse True) cur' sid' (xs @ e # ys)) = xs @ ys)"
  by (auto simp: deleteSession_def filter_id_conv split: delete_outcome.splits)

theorem remove_absent_noop_witness:
  "ascii ''B'' \<notin> session_id ` set [entry ''A'' ''hello'' 1]
   \<and> sessionsAfter (deleteSession True (DeleteResponse True) None (ascii ''B'')
        [entry ''A'' ''hello'' 1]) = [entry ''A'' ''hello'' 1]
   \<and> session_id (entry ''B'' ''bye'' 2) = ascii ''B''
   \<and> sessionsAfter (deleteSession True (DeleteResponse True) None (ascii ''B'')
        ([entry ''A'' ''hello'' 1] @ entry ''B'' ''bye'' 2 # [])) = [entry ''A'' ''hello'' 1]"
proof -
  have absent: "\<forall>s \<in> set ([entry ''A'' ''hello'' 1] @ []). session_id s \<noteq> ascii ''B''"
    by (simp add: entry_def ascii_def)
  have hit: "session_id (entry ''B'' ''bye'' 2) = ascii ''B''"
    by (simp add: entry_def)
  from remove_absent_noop [of "[entry ''A'' ''hello'' 1]" "ascii ''B''" True
      "DeleteResponse True" None "[entry ''A'' ''hello'' 1]" "[]" "ascii ''B''"
      "entry ''B'' ''bye'' 2" None] absent hit
  show ?thesis by simp
qed

subsection \<open>Message counts\<close>

lemma counts_upsert:
  assumes "\<forall>s \<in> set c. 1 \<le> messageCount s"
  shows "\<forall>s \<in> set (updateSessionList sid m now c). 1 \<le> messageCount s"
proof (cases c sid rule: updateSessionList_cases)
  case absent
  with assms show ?thesis by (simp add: updateSessionList_absent)
next
  case (present xs e ys)
  from assms present have "1 \<le> messageCount e" "\<forall>s \<in> set (xs @ ys). 1 \<le> messageCount s"
    by simp_all
  with updateSessionList_present [OF present, of m now] show ?thesis
    by simp
qed

lemma counts_applyOp:
  assumes "\<forall>s \<in> set c. 1 \<le> messageCount s"
  shows "\<forall>s \<in> set (applyOp c x). 1 \<le> messageCount s"
proof (cases x)
  case (Upsert sid m now)
  with counts_upsert [OF assms, of sid m now] show ?thesis by simp
next
  case (Remove sid)
  with assms show ?thesis by (simp add: deleteSession_def)
qed

lemma counts_runOps:
  "\<forall>s \<in> set c. 1 \<le> messageCount s \<Longrightarrow> \<forall>s \<in> set (runOps ops c). 1 \<le> messageCount s"
proof (induction ops arbitrary: c)
  case Nil
  then show ?case by (simp add: runOps_def)
next
  case (Cons x ops)
  from Cons.IH [OF counts_applyOp [OF Cons.prems, of x]] show ?case
    by (simp add: runOps_def)
qed

text \<open>
  C9. In every list reached from the empty list by updates and removals, each entry
  counts at least one message; so no update of such a list takes the branch that
  recomputes the title of an existing entry with \<open>messageCount = 0\<close>.
\<close>

theorem counts_at_least_one:
  "(\<forall>s \<in> set (runOps ops []). 1 \<le> messageCount s)
   \<and> \<not> titleReassigned sid (runOps ops [])"
proof
  have empty: "\<forall>s \<in> set ([] :: SessionSummary list). 1 \<le> messageCount s"
    by simp
  show pos: "\<forall>s \<in> set (runOps ops []). 1 \<le> messageCount s"
    by (rule counts_runOps [OF empty])
  show "\<not> titleReassigned sid (runOps ops [])"
  proof
    assume re: "titleReassigned sid (runOps ops [])"
    define c where "c = runOps ops []"
    define i where "i = findIndex (\<lambda>s. session_id s = sid) c"
    from re have nn: "0 \<le> i" and zero: "messageCount (c ! nat i) = 0"
      by (simp_all add: titleReassigned_def Let_def c_def i_def)
    from findIndex_found [OF nn [unfolded i_def]] have "nat i < length c"
      unfolding i_def by (rule conjunct1)
    then have "c ! nat i \<in> set c"
      by (rule nth_mem)
    with pos have "1 \<le> messageCount (c ! nat i)"
      unfolding c_def by (rule bspec)
    with zero show False by simp
  qed
qed

theorem counts_at_least_one_witness:
  "map messageCount (runOps [Upsert (ascii ''A'') (ascii ''m1'') (ascii ''t1''),
        Upsert (ascii ''B'') (ascii ''m2'') (ascii ''t2''),
        Upsert (ascii ''A'') (ascii ''m3'') (ascii ''t3''),
        Remove (ascii ''B'')] []) = [2]
   \<and> \<not> titleReassigned (ascii ''A'')
         (runOps [Upsert (ascii ''A'') (ascii ''m1'') (ascii ''t1''),
        Upsert (ascii ''B'') (ascii ''m2'') (ascii ''t2''),
        Upsert (ascii ''A'') (ascii ''m3'') (ascii ''t3''),
        Remove (ascii ''B'')] [])"
proof -
  have ev: "map messageCount (runOps [Upsert (ascii ''A'') (ascii ''m1'') (ascii ''t1''),
        Upsert (ascii ''B'') (ascii ''m2'') (ascii ''t2''),
        Upsert (ascii ''A'') (ascii ''m3'') (ascii ''t3''),
        Remove (ascii ''B'')] []) = [2]"
    by code_simp
  from counts_at_least_one [of "[Upsert (ascii ''A'') (ascii ''m1'') (ascii ''t1''),
        Upsert (ascii ''B'') (ascii ''m2'') (ascii ''t2''),
        Upsert (ascii ''A'') (ascii ''m3'') (ascii ''t3''),
        Remove (ascii ''B'')]" "ascii ''A''"] ev
  show ?thesis by blast
qed

subsection \<open>Frame\<close>

text \<open>
  C10. An update of \<open>sid\<close> leaves the entries of every other id as they are, with all
  their fields, and in the same relative order.
\<close>

theorem other_entries_unchanged:
  "filter (\<lambda>s. session_id s \<noteq> sid) (updateSessionList sid m now c)
     = filter (\<lambda>s. session_id s \<noteq> sid) c"
proof (cases c sid rule: updateSessionList_cases)
  case absent
  then show ?thesis by (simp add: updateSessionList_absent)
next
  case (present xs e ys)
  from updateSessionList_present [OF present, of m now] present show ?thesis by simp
qed

section \<open>Facts about the stored list\<close>

text \<open>
  A stored text that is absent, empty or not JSON leaves the summaries as they were: the
  empty sequence at the first load.
\<close>

lemma load_keeps_state:
  assumes "storedSessions = None \<or> storedSessions = Some [] \<or> parsed = None"
  shows "loadSessions storedSessions parsed prevSessions = prevSessions"
  using assms by (auto simp: loadSessions_def split: option.splits)

text \<open>
  C7 at the stored text \<^verbatim>\<open>{}\<close>, which is JSON but not a list of summaries. The claim has
  the load return the empty sequence; \<^verbatim>\<open>loadSessions\<close> hands the parsed object to
  \<^verbatim>\<open>setSessions\<close> with no look at its shape, so from the empty sequence the state becomes
  that object, which is no sequence at all.
\<close>

theorem load_schema_invalid_installed:
  "loadSessions (Some (ascii ''{}'')) (Some (JObj [])) (JArr []) = JObj []
   \<and> JObj [] \<noteq> JArr []"
  by (simp add: loadSessions_def ascii_def)

section \<open>Facts about the chat component\<close>

subsection \<open>Creating a session\<close>

text \<open>
  C6 (amended). When the creation of a session throws (the request is rejected, or the
  body of the response cannot be read), \<^verbatim>\<open>createNewSession\<close> catches the error, leaves
  \<open>sessionId\<close> as it was, and sets the transcript to one greeting by the assistant. Its
  text is the shorter default greeting, which is not the greeting of the success path.
\<close>

theorem create_failure_greets:
  assumes "outcome = Rejected \<or> outcome = Responded True None"
  shows "(\<exists>err. createNewSession_try now outcome st = Inl err)
         \<and> createNewSession now outcome st = st\<lparr> messages := [greeting greetingDefault now] \<rparr>
         \<and> sessionId (createNewSession now outcome st) = sessionId st
         \<and> greetingDefault \<noteq> greetingSession"
proof -
  have "greetingDefault \<noteq> greetingSession"
    by (simp add: greetingDefault_def greetingSession_def)
  with assms show ?thesis
    by (auto simp: createNewSession_def createNewSession_try_def)
qed

theorem create_failure_greets_witness:
  "createNewSession 1700000000000 Rejected
     \<lparr> messages = [], inputValue = [], isLoading = False, sessionId = None \<rparr>
   = \<lparr> messages = [greeting greetingDefault 1700000000000], inputValue = [],
       isLoading = False, sessionId = None \<rparr>"
  using create_failure_greets [of Rejected 1700000000000
      "\<lparr> messages = [], inputValue = [], isLoading = False, sessionId = None \<rparr>"]
  by simp

text \<open>The greeting after a rejected request is not the greeting after a created session.\<close>

theorem create_same_greeting_counterexample:
  "messages (createNewSession 0 Rejected
      \<lparr> messages = [], inputValue = [], isLoading = False, sessionId = None \<rparr>)
   \<noteq> messages (createNewSession 0
        (Responded True (Some \<lparr> chat_session_id = ascii ''s1'', chat_messages = [],
           created_at = ascii ''2025-01-01T00:00:00'',
           chat_updated_at = ascii ''2025-01-01T00:00:00'' \<rparr>))
      \<lparr> messages = [], inputValue = [], isLoading = False, sessionId = None \<rparr>)"
  by (simp add: createNewSession_def createNewSession_try_def greeting_def
      greetingDefault_def greetingSession_def)

subsection \<open>Sending a message\<close>

text \<open>
  C2 (amended). A send that fails appends, after the user's message, exactly one message
  by the assistant; the update callback is not called, so the state of its owner (the
  session list and the selection) is the one before the send, whatever the callback is.
  The text of the message is the fixed apology when the request or the reading of the
  body throws or the status is not a success; when the body reports
  \<open>success = false\<close> it is the \<open>message\<close> of the response, else its \<open>error\<close>, else a
  second fixed text.
\<close>

theorem failed_send:
  assumes "trim (inputValue st) \<noteq> []" and "sendFails outcome"
  shows "handleSendMessage clock outcome onSessionUpdate (st, w) =
           (st\<lparr> messages := messages st
                  @ [\<lparr> id' = IdOfNumber (userIdNow clock), text' = inputValue st,
                       isUser = True, timestamp = userStamp clock, sources = None \<rparr>,
                     replyMessage clock (failureText outcome) None],
                inputValue := [], isLoading := False \<rparr>, w)"
proof (cases outcome)
  case Rejected
  with assms(1) show ?thesis
    by (simp add: handleSendMessage_def handleSendMessage_try_def Let_def)
next
  case (Responded ok body)
  show ?thesis
  proof (cases ok)
    case False
    with Responded assms(1) show ?thesis
      by (simp add: handleSendMessage_def handleSendMessage_try_def Let_def)
  next
    case True
    show ?thesis
    proof (cases body)
      case None
      with True Responded assms(1) show ?thesis
        by (simp add: handleSendMessage_def handleSendMessage_try_def Let_def)
    next
      case (Some r)
      with True Responded assms(2) have "\<not> success r" by simp
      with Some True Responded assms(1) show ?thesis
        by (simp add: handleSendMessage_def handleSendMessage_try_def Let_def)
    qed
  qed
qed

theorem failed_send_witness:
  "trim (inputValue chatWithSession) \<noteq> [] \<and> sendFails Rejected
   \<and> handleSendMessage exampleClock Rejected (Some (handleSessionUpdate (ascii ''t1'')))
        (chatWithSession,
         \<lparr> currentSessionId = Some (ascii ''s1''),
           sessionList = Some [entry ''s1'' ''first'' 1] \<rparr>)
     = (chatWithSession\<lparr> messages := messages chatWithSession
            @ [\<lparr> id' = IdOfNumber 1700000000000, text' = ascii ''hello'', isUser = True,
                 timestamp = 1700000000001, sources = None \<rparr>,
               \<lparr> id' = IdOfNumber 1700000000851, text' = apologyText, isUser = False,
                 timestamp = 1700000000851, sources = None \<rparr>],
          inputValue := [], isLoading := False \<rparr>,
        \<lparr> currentSessionId = Some (ascii ''s1''),
          sessionList = Some [entry ''s1'' ''first'' 1] \<rparr>)"
proof -
  have typed: "trim (inputValue chatWithSession) \<noteq> []"
    by (simp add: chatWithSession_def trim_def isWhiteSpace_def ascii_def)
  have fails: "sendFails Rejected"
    by simp
  have input: "inputValue chatWithSession = ascii ''hello''"
    by (simp add: chatWithSession_def)
  from failed_send [OF typed fails, of exampleClock
      "Some (handleSessionUpdate (ascii ''t1''))"
      "\<lparr> currentSessionId = Some (ascii ''s1''),
         sessionList = Some [entry ''s1'' ''first'' 1] \<rparr>"] typed fails input
  show ?thesis
    by (simp add: replyMessage_def exampleClock_def)
qed

text \<open>A response that reports \<open>success = false\<close> with a message of its own: the message
  shown is that message, not the fixed apology.\<close>

theorem failed_send_fixed_apology_counterexample:
  "sendFails (Responded True (Some refusedResponse))
   \<and> text' (last (messages (fst (handleSendMessage exampleClock
        (Responded True (Some refusedResponse)) None (chatWithSession, ())))))
     \<noteq> apologyText"
  by code_simp

text \<open>
  A successful send from a chat that holds a session id calls the update callback with
  that id and the text typed by the user.
\<close>

lemma send_success_known_session:
  assumes "trim (inputValue st) \<noteq> []" and "truthy (sessionId st)"
    and "success r" and "data r = Some d"
  shows "snd (handleSendMessage clock (Responded True (Some r)) (Some notify) (st, w))
           = notify (the (sessionId st)) (inputValue st) w"
  using assms
  by (simp add: handleSendMessage_def handleSendMessage_try_def Let_def)

text \<open>A send from a chat with no session id never calls the update callback, whatever the
  response is.\<close>

lemma send_without_session_silent:
  assumes "sessionId st = None"
  shows "snd (handleSendMessage clock outcome onSessionUpdate (st, w)) = w"
  using assms
  by (auto simp: handleSendMessage_def handleSendMessage_try_def Let_def truthy_def
      split: fetched.splits option.splits sum.splits)

text \<open>
  C1 at a chat with no session id. The send succeeds and the response carries the session
  id \<open>s1\<close>: the chat adopts \<open>s1\<close> and shows the answer, but the update callback is guarded
  by the \<open>sessionId\<close> of the closure, which is still \<^verbatim>\<open>null\<close>; it is not called, and the
  session list stays empty.
\<close>

theorem adopted_session_not_reported:
  "sessionId (fst (handleSendMessage exampleClock (Responded True (Some answerResponse))
       (Some (handleSessionUpdate (ascii ''t1'')))
       (chatWithoutSession, \<lparr> currentSessionId = None, sessionList = Some [] \<rparr>)))
     = Some (ascii ''s1'')
   \<and> map text' (messages (fst (handleSendMessage exampleClock
       (Responded True (Some answerResponse)) (Some (handleSessionUpdate (ascii ''t1'')))
       (chatWithoutSession, \<lparr> currentSessionId = None, sessionList = Some [] \<rparr>))))
     = [greetingDefault, ascii ''hello'', ascii ''hi there'']
   \<and> snd (handleSendMessage exampleClock (Responded True (Some answerResponse))
       (Some (handleSessionUpdate (ascii ''t1'')))
       (chatWithoutSession, \<lparr> currentSessionId = None, sessionList = Some [] \<rparr>))
     = \<lparr> currentSessionId = None, sessionList = Some [] \<rparr>"
  by code_simp

end
